theory Spec2Isabelle
  imports Complex_Main "HOL-Library.Multiset"
begin

section \<open>A shallow embedding of the ray tracer\<close>

text \<open>
  The C++ type \<open>double\<close> is idealised as \<^typ>\<open>real\<close>: arithmetic is exact, there is no
  rounding, no NaN and no signed zero. Where the program divides by zero it computes an
  infinity or a NaN, which a real quotient does not describe: the statements that depend
  on the value of a quotient assume that its divisor is not zero. The one infinite value
  the program passes around, the upper
  bound \<open>infinity\<close> that \<open>ray_color\<close> passes to \<open>hit\<close>, is kept by the type \<open>ext\<close> of upper
  bounds. Out-parameters (\<open>hit_record& rec\<close>, \<open>color& attenuation\<close>, \<open>ray& scattered\<close>) are
  passed in and returned. A \<open>shared_ptr<material>\<close> is a \<open>material option\<close>, \<open>None\<close> being the
  null pointer. The process-wide stream behind \<open>rand()\<close> is an explicit argument.
\<close>

subsection \<open>vec3\<close>

datatype vec3 = Vec3 real real real

type_synonym point3 = vec3
type_synonym color = vec3

fun x_of :: "vec3 \<Rightarrow> real" where "x_of (Vec3 a b c) = a"
fun y_of :: "vec3 \<Rightarrow> real" where "y_of (Vec3 a b c) = b"
fun z_of :: "vec3 \<Rightarrow> real" where "z_of (Vec3 a b c) = c"

text \<open>\<open>vec3 operator-() const\<close>\<close>
fun vneg :: "vec3 \<Rightarrow> vec3" where
  "vneg (Vec3 a b c) = Vec3 (- a) (- b) (- c)"

fun length_squared :: "vec3 \<Rightarrow> real" where
  "length_squared (Vec3 a b c) = a * a + b * b + c * c"

definition vlength :: "vec3 \<Rightarrow> real" where
  "vlength v = sqrt (length_squared v)"

fun near_zero :: "vec3 \<Rightarrow> bool" where
  "near_zero (Vec3 a b c) = (\<bar>a\<bar> < 1 / 10 ^ 8 \<and> \<bar>b\<bar> < 1 / 10 ^ 8 \<and> \<bar>c\<bar> < 1 / 10 ^ 8)"

text \<open>\<open>operator+\<close>, \<open>operator-\<close>, the elementwise \<open>operator*\<close>, \<open>double * vec3\<close>
  and \<open>vec3 / double\<close>.\<close>

fun vplus :: "vec3 \<Rightarrow> vec3 \<Rightarrow> vec3" where
  "vplus (Vec3 a b c) (Vec3 a' b' c') = Vec3 (a + a') (b + b') (c + c')"

fun vminus :: "vec3 \<Rightarrow> vec3 \<Rightarrow> vec3" where
  "vminus (Vec3 a b c) (Vec3 a' b' c') = Vec3 (a - a') (b - b') (c - c')"

fun vmul :: "vec3 \<Rightarrow> vec3 \<Rightarrow> vec3" where
  "vmul (Vec3 a b c) (Vec3 a' b' c') = Vec3 (a * a') (b * b') (c * c')"

fun smul :: "real \<Rightarrow> vec3 \<Rightarrow> vec3" where
  "smul k (Vec3 a b c) = Vec3 (k * a) (k * b) (k * c)"

definition vdiv :: "vec3 \<Rightarrow> real \<Rightarrow> vec3" where
  "vdiv v k = smul (1 / k) v"

fun dot :: "vec3 \<Rightarrow> vec3 \<Rightarrow> real" where
  "dot (Vec3 a b c) (Vec3 a' b' c') = a * a' + b * b' + c * c'"

definition unit_vector :: "vec3 \<Rightarrow> vec3" where
  "unit_vector v = vdiv v (vlength v)"

definition reflect :: "vec3 \<Rightarrow> vec3 \<Rightarrow> vec3" where
  "reflect v n = vminus v (smul (2 * dot v n) n)"

definition refract :: "vec3 \<Rightarrow> vec3 \<Rightarrow> real \<Rightarrow> vec3" where
  "refract uv n etai_over_etat =
     (let cos_theta = min (dot (vneg uv) n) 1;
          r_out_perp = smul etai_over_etat (vplus uv (smul cos_theta n));
          r_out_parallel = smul (- sqrt \<bar>1 - length_squared r_out_perp\<bar>) n
      in vplus r_out_perp r_out_parallel)"

subsection \<open>rtweekend: clamp\<close>

definition clamp :: "real \<Rightarrow> real \<Rightarrow> real \<Rightarrow> real" where
  "clamp x lo hi = (if x < lo then lo else if x > hi then hi else x)"

subsection \<open>ray\<close>

record ray =
  orig :: point3
  dir :: vec3

definition origin :: "ray \<Rightarrow> point3" where
  "origin r = orig r"

definition direction :: "ray \<Rightarrow> vec3" where
  "direction r = dir r"

text \<open>\<open>ray::at\<close>\<close>

definition ray_at :: "ray \<Rightarrow> real \<Rightarrow> point3" where
  "ray_at r k = vplus (orig r) (smul k (dir r))"

subsection \<open>Materials: data\<close>

text \<open>The three classes derived from \<open>material\<close>, with their public fields, and the
  class hierarchy as a sum. The function \<open>metal\<close> is the constructor
  \<open>metal(const color& a, double f)\<close>; the constructors of \<open>lambertian\<close> and \<open>dielectric\<close>
  store their argument as it is.\<close>

datatype lambertian = Lambertian color

datatype metal = Metal (albedo: color) (fuzz: real)

datatype dielectric = Dielectric (ir: real)

datatype material =
    Mat_lambertian lambertian
  | Mat_metal metal
  | Mat_dielectric dielectric

definition metal :: "color \<Rightarrow> real \<Rightarrow> metal" where
  "metal a f = Metal a (if f < 1 then f else 1)"

subsection \<open>hit\_record\<close>

record hit_record =
  p :: point3
  normal :: vec3
  mat_ptr :: "material option"
  t :: real
  front_face :: bool

definition set_face_normal :: "hit_record \<Rightarrow> ray \<Rightarrow> vec3 \<Rightarrow> hit_record" where
  "set_face_normal rec r outward_normal =
     (let rec1 = rec\<lparr>front_face := (dot (direction r) outward_normal < 0)\<rparr>
      in rec1\<lparr>normal := (if front_face rec1 then outward_normal else vneg outward_normal)\<rparr>)"

text \<open>A record declared without initialiser, as \<open>hit_record temp_rec;\<close> is: \<open>p\<close> and
  \<open>normal\<close> are zero vectors and \<open>mat_ptr\<close> is null by their default constructors; \<open>t\<close> and
  \<open>front_face\<close> are indeterminate in C++ and are fixed here. No function below reads them
  before writing them.\<close>

definition hit_record_init :: hit_record where
  "hit_record_init =
     \<lparr>p = Vec3 0 0 0, normal = Vec3 0 0 0, mat_ptr = None, t = 0, front_face = False\<rparr>"

subsection \<open>hittable: sphere and hittable\_list\<close>

text \<open>Upper bounds of the search range: a real number or \<open>infinity\<close>.\<close>

datatype ext = Fin real | PInf

text \<open>\<open>exceeds x b\<close> is the test \<open>x > b\<close>.\<close>

fun exceeds :: "real \<Rightarrow> ext \<Rightarrow> bool" where
  "exceeds x (Fin m) = (m < x)"
| "exceeds x PInf = False"


datatype hittable =
    Sphere point3 real "material option"
  | Hittable_list "hittable list"

text \<open>\<open>sphere::hit\<close>. Both roots are quotients by \<open>a\<close>, the squared length of the
  direction of the ray. For a ray of direction \<open>(0, 0, 0)\<close> the program computes \<open>0 / 0\<close>, a
  NaN, for which both range tests are false, and accepts it; the real quotient below does
  not describe that run. The statements about the roots and about the accepted \<open>t\<close>
  therefore assume \<open>0 < a\<close>, that is \<open>0 < length_squared (direction r)\<close>.\<close>

text \<open>The end of \<open>sphere::hit\<close>, from \<open>rec.t = root\<close> on.\<close>

definition sphere_accept ::
  "point3 \<Rightarrow> real \<Rightarrow> material option \<Rightarrow> ray \<Rightarrow> real \<Rightarrow> hit_record \<Rightarrow> bool \<times> hit_record" where
  "sphere_accept center radius mat r accepted rec =
     (let rec1 = rec\<lparr>t := accepted\<rparr>;
          rec2 = rec1\<lparr>p := ray_at r (t rec1)\<rparr>;
          outward_normal = vdiv (vminus (p rec2) center) radius;
          rec3 = set_face_normal rec2 r outward_normal;
          rec4 = rec3\<lparr>mat_ptr := mat\<rparr>
      in (True, rec4))"

definition sphere_hit ::
  "point3 \<Rightarrow> real \<Rightarrow> material option \<Rightarrow> ray \<Rightarrow> real \<Rightarrow> ext \<Rightarrow> hit_record \<Rightarrow> bool \<times> hit_record" where
  "sphere_hit center radius mat r t_min t_max rec =
     (let oc = vminus (origin r) center;
          a = length_squared (direction r);
          half_b = dot oc (direction r);
          c = length_squared oc - radius * radius;
          discriminant = half_b * half_b - a * c
      in if discriminant < 0 then (False, rec)
         else
           let sqrtd = sqrt discriminant;
               root = (- half_b - sqrtd) / a
           in if root < t_min \<or> exceeds root t_max
              then
                let root = (- half_b + sqrtd) / a
                in if root < t_min \<or> exceeds root t_max then (False, rec)
                   else sphere_accept center radius mat r root rec
              else sphere_accept center radius mat r root rec)"

text \<open>\<open>hit\<close> dispatches on the class of the object. \<open>hit_loop\<close> is the \<open>for\<close> loop of
  \<open>hittable_list::hit\<close> over the remaining objects; its state is
  \<open>(temp_rec, hit_anything, closest_so_far, rec)\<close>.\<close>

fun hit :: "hittable \<Rightarrow> ray \<Rightarrow> real \<Rightarrow> ext \<Rightarrow> hit_record \<Rightarrow> bool \<times> hit_record"
and hit_loop ::
  "hittable list \<Rightarrow> ray \<Rightarrow> real \<Rightarrow> hit_record \<times> bool \<times> ext \<times> hit_record
     \<Rightarrow> hit_record \<times> bool \<times> ext \<times> hit_record"
where
  "hit (Sphere center radius mat) r t_min t_max rec =
     sphere_hit center radius mat r t_min t_max rec"
| "hit (Hittable_list objects) r t_min t_max rec =
     (case hit_loop objects r t_min (hit_record_init, False, t_max, rec) of
        (temp_rec, hit_anything, closest_so_far, rec') \<Rightarrow> (hit_anything, rec'))"
| "hit_loop [] r t_min s = s"
| "hit_loop (object # objects) r t_min (temp_rec, hit_anything, closest_so_far, rec) =
     (case hit object r t_min closest_so_far temp_rec of
        (b, temp_rec') \<Rightarrow>
          if b then hit_loop objects r t_min (temp_rec', True, Fin (t temp_rec'), temp_rec')
          else hit_loop objects r t_min (temp_rec', hit_anything, closest_so_far, rec))"

subsection \<open>Random numbers\<close>

text \<open>The state of the generator is the sequence of the values that the calls of
  \<open>random_double()\<close>, that is \<open>rand() / (RAND_MAX + 1.0)\<close>, are going to return. A call
  takes the first and leaves the rest. Where C++ leaves the order of the calls in an
  argument list open, they are made left to right.\<close>

type_synonym rng = "nat \<Rightarrow> real"

definition random_double :: "rng \<Rightarrow> real \<times> rng" where
  "random_double g = (g 0, \<lambda>n. g (Suc n))"

definition random_double_range :: "real \<Rightarrow> real \<Rightarrow> rng \<Rightarrow> real \<times> rng" where
  "random_double_range lo hi g =
     (case random_double g of (u, g') \<Rightarrow> (lo + (hi - lo) * u, g'))"

text \<open>\<open>vec3::random(double min, double max)\<close>\<close>

definition vec3_random_range :: "real \<Rightarrow> real \<Rightarrow> rng \<Rightarrow> vec3 \<times> rng" where
  "vec3_random_range lo hi g =
     (case random_double_range lo hi g of (a, g1) \<Rightarrow>
      case random_double_range lo hi g1 of (b, g2) \<Rightarrow>
      case random_double_range lo hi g2 of (c, g3) \<Rightarrow> (Vec3 a b c, g3))"

text \<open>The rejection loop \<open>while (true)\<close> may run forever: \<open>None\<close> is not returning.\<close>

partial_function (option) random_in_unit_sphere :: "rng \<Rightarrow> (vec3 \<times> rng) option" where
  "random_in_unit_sphere g =
     (case vec3_random_range (- 1) 1 g of (v, g') \<Rightarrow>
        if length_squared v \<ge> 1 then random_in_unit_sphere g' else Some (v, g'))"

definition random_unit_vector :: "rng \<Rightarrow> (vec3 \<times> rng) option" where
  "random_unit_vector g =
     (case random_in_unit_sphere g of None \<Rightarrow> None
      | Some (v, g') \<Rightarrow> Some (unit_vector v, g'))"

subsection \<open>Materials: scatter\<close>

text \<open>\<open>scatter\<close> takes the caller's \<open>attenuation\<close> and \<open>scattered\<close> and returns the
  boolean result with their values at the return.\<close>

definition lambertian_scatter ::
  "lambertian \<Rightarrow> ray \<Rightarrow> hit_record \<Rightarrow> color \<Rightarrow> ray \<Rightarrow> rng
     \<Rightarrow> (bool \<times> color \<times> ray \<times> rng) option" where
  "lambertian_scatter m r_in rec attenuation scattered g =
     (case m of Lambertian a \<Rightarrow>
        (case random_unit_vector g of
           None \<Rightarrow> None
         | Some (u, g') \<Rightarrow>
             let scatter_direction = vplus (normal rec) u;
                 scatter_direction =
                   (if near_zero scatter_direction then normal rec else scatter_direction);
                 scattered = \<lparr>orig = p rec, dir = scatter_direction\<rparr>;
                 attenuation = a
             in Some (True, attenuation, scattered, g')))"

definition metal_scatter ::
  "metal \<Rightarrow> ray \<Rightarrow> hit_record \<Rightarrow> color \<Rightarrow> ray \<Rightarrow> rng
     \<Rightarrow> (bool \<times> color \<times> ray \<times> rng) option" where
  "metal_scatter m r_in rec attenuation scattered g =
     (let reflected = reflect (unit_vector (direction r_in)) (normal rec)
      in case random_in_unit_sphere g of None \<Rightarrow> None
         | Some (v, g') \<Rightarrow>
             let scattered = \<lparr>orig = p rec, dir = vplus reflected (smul (fuzz m) v)\<rparr>;
                 attenuation = albedo m
             in Some (dot (direction scattered) (normal rec) > 0, attenuation, scattered, g'))"

definition reflectance :: "real \<Rightarrow> real \<Rightarrow> real" where
  "reflectance cosine ref_idx =
     (let r0 = (1 - ref_idx) / (1 + ref_idx);
          r0 = r0 * r0
      in r0 + (1 - r0) * (1 - cosine) ^ 5)"

definition dielectric_scatter ::
  "dielectric \<Rightarrow> ray \<Rightarrow> hit_record \<Rightarrow> color \<Rightarrow> ray \<Rightarrow> rng
     \<Rightarrow> (bool \<times> color \<times> ray \<times> rng) option" where
  "dielectric_scatter m r_in rec attenuation scattered g =
     (let attenuation = Vec3 1 1 1;
          refraction_ratio = (if front_face rec then 1 / ir m else ir m);
          unit_direction = unit_vector (direction r_in);
          cos_theta = min (dot (vneg unit_direction) (normal rec)) 1;
          sin_theta = sqrt (1 - cos_theta * cos_theta);
          cannot_refract = (refraction_ratio * sin_theta > 1)
      in if cannot_refract
         then Some (True, attenuation,
                \<lparr>orig = p rec, dir = reflect unit_direction (normal rec)\<rparr>, g)
         else
           case random_double g of (u, g') \<Rightarrow>
             if reflectance cos_theta refraction_ratio > u
             then Some (True, attenuation,
                    \<lparr>orig = p rec, dir = reflect unit_direction (normal rec)\<rparr>, g')
             else Some (True, attenuation,
                    \<lparr>orig = p rec, dir = refract unit_direction (normal rec) refraction_ratio\<rparr>,
                    g'))"

fun scatter ::
  "material \<Rightarrow> ray \<Rightarrow> hit_record \<Rightarrow> color \<Rightarrow> ray \<Rightarrow> rng
     \<Rightarrow> (bool \<times> color \<times> ray \<times> rng) option" where
  "scatter (Mat_lambertian m) r_in rec attenuation scattered g =
     lambertian_scatter m r_in rec attenuation scattered g"
| "scatter (Mat_metal m) r_in rec attenuation scattered g =
     metal_scatter m r_in rec attenuation scattered g"
| "scatter (Mat_dielectric m) r_in rec attenuation scattered g =
     dielectric_scatter m r_in rec attenuation scattered g"

subsection \<open>ray\_color\<close>

text \<open>Calling \<open>scatter\<close> through a null \<open>mat_ptr\<close> is an error of its own; \<open>None\<close> is a
  \<open>scatter\<close> that does not return. The locals \<open>ray scattered\<close> and \<open>color attenuation\<close> are
  default-constructed.\<close>

datatype error = Null_material

function ray_color :: "ray \<Rightarrow> hittable \<Rightarrow> int \<Rightarrow> rng \<Rightarrow> (error + color \<times> rng) option" where
  "ray_color r world depth g =
     (if depth \<le> 0 then Some (Inr (Vec3 0 0 0, g))
      else
        case hit world r (1 / 1000) PInf hit_record_init of (b, rec) \<Rightarrow>
          if b then
            (case mat_ptr rec of
               None \<Rightarrow> Some (Inl Null_material)
             | Some m \<Rightarrow>
                 (case scatter m r rec (Vec3 0 0 0) \<lparr>orig = Vec3 0 0 0, dir = Vec3 0 0 0\<rparr> g of
                    None \<Rightarrow> None
                  | Some (ok, attenuation, scattered, g') \<Rightarrow>
                      if ok then
                        (case ray_color scattered world (depth - 1) g' of
                           None \<Rightarrow> None
                         | Some (Inl e) \<Rightarrow> Some (Inl e)
                         | Some (Inr (c, g'')) \<Rightarrow> Some (Inr (vmul attenuation c, g'')))
                      else Some (Inr (Vec3 0 0 0, g'))))
          else
            let unit_direction = unit_vector (direction r);
                k = (1 / 2) * (y_of unit_direction + 1)
            in Some (Inr (vplus (smul (1 - k) (Vec3 1 1 1)) (smul k (Vec3 (1 / 2) (7 / 10) 1)), g)))"
  by pat_completeness auto
termination
  by (relation "measure (\<lambda>(r, world, depth, g). nat depth)") auto

declare ray_color.simps [simp del]

subsection \<open>main: writing a pixel\<close>

text \<open>\<open>static_cast<int>\<close> of a \<open>double\<close> truncates towards zero.\<close>

definition static_cast_int :: "real \<Rightarrow> int" where
  "static_cast_int v = (if 0 \<le> v then \<lfloor>v\<rfloor> else \<lceil>v\<rceil>)"

text \<open>The end of the body of the pixel loop of \<open>main\<close>: from the accumulated
  \<open>pixel_color\<close> to the three integers written to \<open>std::cout\<close>.\<close>

definition write_pixel :: "color \<Rightarrow> int \<Rightarrow> int \<times> int \<times> int" where
  "write_pixel pixel_color samples_per_pixel =
     (let r = x_of pixel_color;
          g = y_of pixel_color;
          b = z_of pixel_color;
          scale = 1 / real_of_int samples_per_pixel;
          r = sqrt (scale * r);
          g = sqrt (scale * g);
          b = sqrt (scale * b)
      in (static_cast_int (256 * clamp r 0 (999 / 1000)),
          static_cast_int (256 * clamp g 0 (999 / 1000)),
          static_cast_int (256 * clamp b 0 (999 / 1000))))"

section \<open>Auxiliary notions for the statements and proofs\<close>

text \<open>The quadratic that \<open>sphere::hit\<close> solves, its discriminant and its two roots, as
  functions of the sphere and the ray; \<open>in_range k t_min t_max\<close> says that \<open>k\<close> lies in
  \<open>[t_min, t_max]\<close>; \<open>hit_opt\<close> is \<open>hit\<close> seen as a function to an optional record;
  \<open>nearest\<close> is the result of the scan of \<open>hittable_list::hit\<close> as a function of the
  children and the bound.\<close>

definition quad_a :: "ray \<Rightarrow> real" where
  "quad_a r = length_squared (direction r)"

definition quad_half_b :: "point3 \<Rightarrow> ray \<Rightarrow> real" where
  "quad_half_b center r = dot (vminus (origin r) center) (direction r)"

definition quad_c :: "point3 \<Rightarrow> real \<Rightarrow> ray \<Rightarrow> real" where
  "quad_c center radius r = length_squared (vminus (origin r) center) - radius * radius"

definition quad_discriminant :: "point3 \<Rightarrow> real \<Rightarrow> ray \<Rightarrow> real" where
  "quad_discriminant center radius r =
     quad_half_b center r * quad_half_b center r - quad_a r * quad_c center radius r"

definition smaller_root :: "point3 \<Rightarrow> real \<Rightarrow> ray \<Rightarrow> real" where
  "smaller_root center radius r =
     (- quad_half_b center r - sqrt (quad_discriminant center radius r)) / quad_a r"

definition larger_root :: "point3 \<Rightarrow> real \<Rightarrow> ray \<Rightarrow> real" where
  "larger_root center radius r =
     (- quad_half_b center r + sqrt (quad_discriminant center radius r)) / quad_a r"

definition in_range :: "real \<Rightarrow> real \<Rightarrow> ext \<Rightarrow> bool" where
  "in_range k t_min t_max = (t_min \<le> k \<and> \<not> exceeds k t_max)"




subsection \<open>Example scenes\<close>

text \<open>A ray along the z axis and one along the y axis from the origin; unit spheres on the
  z axis at distances 3, 6 and 9; a sphere of radius 2 that touches the first one from
  inside at the point \<open>(0, 0, 2)\<close>; a unit sphere around the origin of the rays; and a
  record holding values of an earlier query.\<close>

definition axis_ray :: ray where
  "axis_ray = \<lparr>orig = Vec3 0 0 0, dir = Vec3 0 0 1\<rparr>"

definition sphere_near :: hittable where
  "sphere_near = Sphere (Vec3 0 0 3) 1 (Some (Mat_lambertian (Lambertian (Vec3 1 0 0))))"

definition sphere_mid :: hittable where
  "sphere_mid = Sphere (Vec3 0 0 6) 1 (Some (Mat_metal (Metal (Vec3 0 1 0) 0)))"

definition sphere_far :: hittable where
  "sphere_far = Sphere (Vec3 0 0 9) 1 (Some (Mat_dielectric (Dielectric (3 / 2))))"


definition sphere_around :: hittable where
  "sphere_around = Sphere (Vec3 0 0 0) 1 (Some (Mat_dielectric (Dielectric (3 / 2))))"

definition side_ray :: ray where
  "side_ray = \<lparr>orig = Vec3 0 0 0, dir = Vec3 0 1 0\<rparr>"

definition stale_record :: hit_record where
  "stale_record = \<lparr>p = Vec3 1 2 3, normal = Vec3 0 1 0,
     mat_ptr = Some (Mat_metal (Metal (Vec3 0 1 0) 0)), t = 7, front_face = True\<rparr>"

text \<open>A metal of fuzz 1, a ray that meets the plane \<open>z = 0\<close> at the origin coming down
  at an angle, the record of that hit, and two streams of random numbers: the first makes
  \<open>random_in_unit_sphere\<close> return \<open>(0, 0, -0.9)\<close> at its first attempt.\<close>

definition absorbing_metal :: metal where
  "absorbing_metal = metal (Vec3 (7 / 10) (6 / 10) (5 / 10)) 1"

definition incoming_ray :: ray where
  "incoming_ray = \<lparr>orig = Vec3 (- 3) 0 4, dir = Vec3 3 0 (- 4)\<rparr>"

definition floor_record :: hit_record where
  "floor_record = \<lparr>p = Vec3 0 0 0, normal = Vec3 0 0 1,
     mat_ptr = Some (Mat_metal absorbing_metal), t = 1, front_face = True\<rparr>"

definition down_stream :: rng where
  "down_stream = (\<lambda>n. if n = 2 then 1 / 20 else 1 / 2)"

definition half_stream :: rng where
  "half_stream = (\<lambda>n. 1 / 2)"

section \<open>Properties of the intersection functions\<close>

lemma sphere_hit_roots:
  "sphere_hit center radius mat r t_min t_max rec =
     (if quad_discriminant center radius r < 0 then (False, rec)
      else if in_range (smaller_root center radius r) t_min t_max
        then sphere_accept center radius mat r (smaller_root center radius r) rec
      else if in_range (larger_root center radius r) t_min t_max
        then sphere_accept center radius mat r (larger_root center radius r) rec
      else (False, rec))"
  by (simp add: sphere_hit_def Let_def quad_discriminant_def quad_half_b_def quad_c_def
      quad_a_def smaller_root_def larger_root_def in_range_def not_less)



lemma sphere_accept_fst: "fst (sphere_accept center radius mat r k rec) = True"
  by (simp add: sphere_accept_def Let_def)

























section \<open>The claims about the intersection functions\<close>

lemmas eval_defs = sphere_hit_def sphere_accept_def set_face_normal_def Let_def
  origin_def direction_def ray_at_def vdiv_def hit_record_init_def








text \<open>
  C4. For an accepted sphere hit, with \<open>outward_normal = (rec.p - center) / radius\<close>,
  \<open>front_face\<close> holds if and only if \<open>dot(r.direction(), outward_normal) < 0\<close>, and the stored
  \<open>normal\<close> is \<open>outward_normal\<close> when \<open>front_face\<close> holds and its negation otherwise.
\<close>

theorem sphere_hit_face_normal:
  "fst (hit (Sphere center radius mat) r t_min t_max rec) \<Longrightarrow>
     (let rec' = snd (hit (Sphere center radius mat) r t_min t_max rec);
          outward_normal = vdiv (vminus (p rec') center) radius
      in front_face rec' = (dot (direction r) outward_normal < 0) \<and>
         normal rec' = (if front_face rec' then outward_normal else vneg outward_normal))"
  by (simp add: sphere_hit_def Let_def sphere_accept_def set_face_normal_def
      split: if_splits)

theorem sphere_hit_face_normal_witness:
  "fst (hit sphere_near axis_ray (1 / 1000) PInf hit_record_init) \<and>
   front_face (snd (hit sphere_near axis_ray (1 / 1000) PInf hit_record_init)) \<and>
   normal (snd (hit sphere_near axis_ray (1 / 1000) PInf hit_record_init)) = Vec3 0 0 (- 1) \<and>
   fst (hit sphere_around axis_ray (1 / 1000) PInf hit_record_init) \<and>
   \<not> front_face (snd (hit sphere_around axis_ray (1 / 1000) PInf hit_record_init)) \<and>
   normal (snd (hit sphere_around axis_ray (1 / 1000) PInf hit_record_init)) = Vec3 0 0 (- 1)"
  using sphere_hit_face_normal [of "Vec3 0 0 3" 1
      "Some (Mat_lambertian (Lambertian (Vec3 1 0 0)))" axis_ray "1 / 1000" PInf hit_record_init]
    sphere_hit_face_normal [of "Vec3 0 0 0" 1
      "Some (Mat_dielectric (Dielectric (3 / 2)))" axis_ray "1 / 1000" PInf hit_record_init]
  by (simp add: sphere_near_def sphere_around_def axis_ray_def eval_defs)

text \<open>
  C7. Whenever \<open>sphere::hit\<close> returns false, the record it was given is returned as it
  was, in all of its fields. The sphere is an argument of \<open>hit\<close> and not part of its result:
  the query cannot change it.
\<close>

theorem sphere_hit_miss_unmodified:
  "\<not> fst (hit (Sphere center radius mat) r t_min t_max rec) \<Longrightarrow>
     hit (Sphere center radius mat) r t_min t_max rec = (False, rec)"
  by (auto simp: sphere_hit_roots sphere_accept_fst split: if_splits)

theorem sphere_hit_miss_unmodified_witness:
  "\<not> fst (hit sphere_near side_ray (1 / 1000) PInf stale_record) \<and>
   hit sphere_near side_ray (1 / 1000) PInf stale_record = (False, stale_record) \<and>
   \<not> fst (hit sphere_near axis_ray (1 / 1000) (Fin 1) stale_record) \<and>
   hit sphere_near axis_ray (1 / 1000) (Fin 1) stale_record = (False, stale_record)"
  using sphere_hit_miss_unmodified [of "Vec3 0 0 3" 1
      "Some (Mat_lambertian (Lambertian (Vec3 1 0 0)))" side_ray "1 / 1000" PInf stale_record]
    sphere_hit_miss_unmodified [of "Vec3 0 0 3" 1
      "Some (Mat_lambertian (Lambertian (Vec3 1 0 0)))" axis_ray "1 / 1000" "Fin 1" stale_record]
  by (simp add: sphere_near_def side_ray_def axis_ray_def eval_defs stale_record_def)

section \<open>The claims about materials, \<open>ray_color\<close> and the pixel output\<close>

lemma down_stream_sphere:
  "random_in_unit_sphere down_stream = Some (Vec3 0 0 (- 9 / 10), half_stream)"
  by (subst random_in_unit_sphere.simps)
     (simp add: vec3_random_range_def random_double_range_def random_double_def
        down_stream_def half_stream_def)

text \<open>
  C5, as stated: for every constructor argument \<open>f\<close> the \<open>fuzz\<close> of the constructed metal
  lies in \<open>[0, 1]\<close>. It fails for a negative argument: \<open>metal(a, -5)\<close> has \<open>fuzz = -5\<close>.
\<close>

theorem metal_ctor_fuzz_counterexample:
  "fuzz (metal (Vec3 1 1 1) (- 5)) = - 5 \<and>
   \<not> (0 \<le> fuzz (metal (Vec3 1 1 1) (- 5)) \<and> fuzz (metal (Vec3 1 1 1) (- 5)) \<le> 1)"
  by (simp add: metal_def)

text \<open>
  C5, amended: the constructor stores \<open>f < 1 ? f : 1\<close>. The \<open>fuzz\<close> of a constructed metal
  is at most 1 for every argument, and lies in \<open>[0, 1]\<close> for every argument \<open>f \<ge> 0\<close>; there
  is no lower clamp.
\<close>

theorem metal_ctor_fuzz:
  "fuzz (metal a f) = (if f < 1 then f else 1) \<and>
   fuzz (metal a f) \<le> 1 \<and>
   (0 \<le> f \<longrightarrow> 0 \<le> fuzz (metal a f))"
  by (simp add: metal_def)

theorem metal_ctor_fuzz_witness:
  "(0::real) \<le> 3 / 10 \<and> fuzz (metal (Vec3 1 1 1) (3 / 10)) = 3 / 10 \<and>
   (0::real) \<le> 2 \<and> fuzz (metal (Vec3 1 1 1) 2) = 1"
  using metal_ctor_fuzz [of "Vec3 1 1 1" "3 / 10"] metal_ctor_fuzz [of "Vec3 1 1 1" 2]
  by simp

text \<open>
  C6. For every ray, every scene, every state of the random numbers and every
  \<open>depth \<le> 0\<close>, \<open>ray_color\<close> returns the color \<open>(0, 0, 0)\<close>, without drawing a random
  number, whether the ray hits something or not.
\<close>

theorem ray_color_depth_exhausted:
  "depth \<le> 0 \<Longrightarrow> ray_color r world depth g = Some (Inr (Vec3 0 0 0, g))"
  by (subst ray_color.simps) simp

theorem ray_color_depth_exhausted_witness:
  "(0::int) \<le> 0 \<and> (- 3::int) \<le> 0 \<and>
   fst (hit (Hittable_list [sphere_far, sphere_near, sphere_mid]) axis_ray (1 / 1000) PInf
      hit_record_init) \<and>
   ray_color axis_ray (Hittable_list [sphere_far, sphere_near, sphere_mid]) 0 half_stream =
     Some (Inr (Vec3 0 0 0, half_stream)) \<and>
   \<not> fst (hit (Hittable_list [sphere_far, sphere_near, sphere_mid]) side_ray (1 / 1000) PInf
      hit_record_init) \<and>
   ray_color side_ray (Hittable_list [sphere_far, sphere_near, sphere_mid]) (- 3) half_stream =
     Some (Inr (Vec3 0 0 0, half_stream))"
  using ray_color_depth_exhausted [of 0 axis_ray
      "Hittable_list [sphere_far, sphere_near, sphere_mid]" half_stream]
    ray_color_depth_exhausted [of "- 3" side_ray
      "Hittable_list [sphere_far, sphere_near, sphere_mid]" half_stream]
  by (simp add: sphere_near_def sphere_mid_def sphere_far_def axis_ray_def side_ray_def
      eval_defs)

lemma clamp_bounds: "lo \<le> hi \<Longrightarrow> lo \<le> clamp v lo hi \<and> clamp v lo hi \<le> hi"
  by (simp add: clamp_def)

lemma floor_clamp_bounds:
  "0 \<le> \<lfloor>256 * clamp v 0 (999 / 1000)\<rfloor> \<and> \<lfloor>256 * clamp v 0 (999 / 1000)\<rfloor> \<le> 255"
proof -
  have b: "0 \<le> clamp v 0 (999 / 1000) \<and> clamp v 0 (999 / 1000) \<le> 999 / 1000"
    by (rule clamp_bounds) simp
  then have "256 * clamp v 0 (999 / 1000) < 256" by simp
  then have "\<lfloor>256 * clamp v 0 (999 / 1000)\<rfloor> < 256" by (simp add: floor_less_iff)
  moreover from b have "0 \<le> \<lfloor>256 * clamp v 0 (999 / 1000)\<rfloor>" by simp
  ultimately show ?thesis by simp
qed

lemma static_cast_clamp:
  "static_cast_int (256 * clamp v 0 (999 / 1000)) = \<lfloor>256 * clamp v 0 (999 / 1000)\<rfloor>"
proof -
  have "0 \<le> clamp v 0 (999 / 1000)"
    using clamp_bounds [of 0 "999 / 1000" v] by simp
  then show ?thesis by (simp add: static_cast_int_def)
qed

text \<open>
  C8. For an accumulated pixel color with non-negative channels and
  \<open>samples_per_pixel \<ge> 1\<close>, each of the three integers written is the integer part of
  \<open>256 * clamp(sqrt(channel / samples_per_pixel), 0.0, 0.999)\<close> and lies in \<open>[0, 255]\<close>.
\<close>

theorem write_pixel_in_byte_range:
  "0 \<le> x_of pixel_color \<Longrightarrow> 0 \<le> y_of pixel_color \<Longrightarrow> 0 \<le> z_of pixel_color \<Longrightarrow>
   1 \<le> samples_per_pixel \<Longrightarrow>
   write_pixel pixel_color samples_per_pixel =
     (\<lfloor>256 * clamp (sqrt (x_of pixel_color / real_of_int samples_per_pixel)) 0 (999 / 1000)\<rfloor>,
      \<lfloor>256 * clamp (sqrt (y_of pixel_color / real_of_int samples_per_pixel)) 0 (999 / 1000)\<rfloor>,
      \<lfloor>256 * clamp (sqrt (z_of pixel_color / real_of_int samples_per_pixel)) 0 (999 / 1000)\<rfloor>) \<and>
   0 \<le> fst (write_pixel pixel_color samples_per_pixel) \<and>
   fst (write_pixel pixel_color samples_per_pixel) \<le> 255 \<and>
   0 \<le> fst (snd (write_pixel pixel_color samples_per_pixel)) \<and>
   fst (snd (write_pixel pixel_color samples_per_pixel)) \<le> 255 \<and>
   0 \<le> snd (snd (write_pixel pixel_color samples_per_pixel)) \<and>
   snd (snd (write_pixel pixel_color samples_per_pixel)) \<le> 255"
proof -
  have eq: "write_pixel pixel_color samples_per_pixel =
     (\<lfloor>256 * clamp (sqrt (x_of pixel_color / real_of_int samples_per_pixel)) 0 (999 / 1000)\<rfloor>,
      \<lfloor>256 * clamp (sqrt (y_of pixel_color / real_of_int samples_per_pixel)) 0 (999 / 1000)\<rfloor>,
      \<lfloor>256 * clamp (sqrt (z_of pixel_color / real_of_int samples_per_pixel)) 0 (999 / 1000)\<rfloor>)"
    by (simp add: write_pixel_def Let_def static_cast_clamp)
  show ?thesis
    unfolding eq fst_conv snd_conv
    by (intro conjI refl floor_clamp_bounds [THEN conjunct1] floor_clamp_bounds [THEN conjunct2])
qed

theorem write_pixel_in_byte_range_witness:
  "0 \<le> x_of (Vec3 40 0 (5 / 2)) \<and> 0 \<le> y_of (Vec3 40 0 (5 / 2)) \<and>
   0 \<le> z_of (Vec3 40 0 (5 / 2)) \<and> (1::int) \<le> 10 \<and>
   write_pixel (Vec3 40 0 (5 / 2)) 10 = (255, 0, 128)"
  using write_pixel_in_byte_range [of "Vec3 40 0 (5 / 2)" 10]
  by (simp add: clamp_def real_sqrt_divide)

text \<open>
  C9. \<open>metal::scatter\<close> returns exactly when \<open>random_in_unit_sphere\<close> does. Whatever
  boolean it returns, \<open>attenuation\<close> is then the albedo and \<open>scattered\<close> is the ray from
  \<open>rec.p\<close> along the reflected direction plus \<open>fuzz\<close> times the random vector, and the
  boolean is the sign test on that ray. So a false return has overwritten both
  out-parameters: the example that follows the theorem is such a return.
\<close>

theorem metal_scatter_overwrites:
  "(scatter (Mat_metal m) r_in rec attenuation scattered g = None \<longleftrightarrow>
      random_in_unit_sphere g = None) \<and>
   (\<forall>b attenuation' scattered' g'.
      scatter (Mat_metal m) r_in rec attenuation scattered g =
        Some (b, attenuation', scattered', g') \<longrightarrow>
      attenuation' = albedo m \<and>
      (\<exists>v. random_in_unit_sphere g = Some (v, g') \<and>
         scattered' = \<lparr>orig = p rec,
           dir = vplus (reflect (unit_vector (direction r_in)) (normal rec)) (smul (fuzz m) v)\<rparr>) \<and>
      b = (dot (direction scattered') (normal rec) > 0))"
  by (auto simp: metal_scatter_def Let_def split: option.splits)

theorem metal_scatter_overwrites_witness:
  "scatter (Mat_metal absorbing_metal) incoming_ray floor_record (Vec3 0 0 0)
       \<lparr>orig = Vec3 0 0 0, dir = Vec3 0 0 0\<rparr> down_stream =
     Some (False, Vec3 (7 / 10) (6 / 10) (5 / 10),
           \<lparr>orig = Vec3 0 0 0, dir = Vec3 (3 / 5) 0 (- 1 / 10)\<rparr>, half_stream) \<and>
   Vec3 (7 / 10) (6 / 10) (5 / 10) \<noteq> Vec3 0 0 0 \<and>
   \<lparr>orig = Vec3 0 0 0, dir = Vec3 (3 / 5) 0 (- 1 / 10)\<rparr> \<noteq> \<lparr>orig = Vec3 0 0 0, dir = Vec3 0 0 0\<rparr>"
proof -
  have run: "scatter (Mat_metal absorbing_metal) incoming_ray floor_record (Vec3 0 0 0)
       \<lparr>orig = Vec3 0 0 0, dir = Vec3 0 0 0\<rparr> down_stream =
     Some (False, Vec3 (7 / 10) (6 / 10) (5 / 10),
           \<lparr>orig = Vec3 0 0 0, dir = Vec3 (3 / 5) 0 (- 1 / 10)\<rparr>, half_stream)"
    by (simp add: metal_scatter_def Let_def down_stream_sphere absorbing_metal_def metal_def
        incoming_ray_def floor_record_def reflect_def unit_vector_def vdiv_def vlength_def
        direction_def)
  from metal_scatter_overwrites [of absorbing_metal incoming_ray floor_record "Vec3 0 0 0"
      "\<lparr>orig = Vec3 0 0 0, dir = Vec3 0 0 0\<rparr>" down_stream] run
  show ?thesis by simp
qed

end
